theory Spec2Isabelle
  imports Main
begin

section \<open>The Redis keyspace as the module API shows it\<close>

text \<open>
  The repository holds the cache guard module twice: the original
  (\<^verbatim>\<open>cache-anit-tampede.c\<close>) and the enhanced one (module version 1.0.1, with input
  validation and a configurable maximum lock duration). Both register
  \<^verbatim>\<open>cache.guard.get\<close> and \<^verbatim>\<open>cache.guard.set\<close>, and their functions have the same names;
  here the names carry the suffix \<open>_original\<close> or \<open>_enhanced\<close>.

  The module is written against the Redis module API (\<^verbatim>\<open>redismodule.h\<close>), which is a
  library outside the repository. The keyspace is a finite map from key names (byte
  strings, which may contain any byte, the NUL byte included) to entries. An entry holds
  its payload and the number \<^verbatim>\<open>RedisModule_GetExpire\<close> reports for it: the remaining
  time to live in milliseconds, or \<^verbatim>\<open>REDISMODULE_NO_EXPIRE\<close> when no expiry is set.
  Redis runs one command at a time, so a command is a function from the keyspace before
  it to its reply and the keyspace after it.
\<close>

type_synonym RedisModuleString = string

datatype keytype =
  REDISMODULE_KEYTYPE_EMPTY | REDISMODULE_KEYTYPE_STRING | REDISMODULE_KEYTYPE_OTHER

datatype status = REDISMODULE_OK | REDISMODULE_ERR

datatype rvalue = StringVal string | OtherVal

record entry =
  stored :: rvalue
  expire :: int

type_synonym keyspace = "RedisModuleString \<rightharpoonup> entry"

definition REDISMODULE_NO_EXPIRE :: int where
  "REDISMODULE_NO_EXPIRE = -1"

text \<open>
  Every key is opened with \<^verbatim>\<open>REDISMODULE_WRITE\<close>; in that mode the API hands out a handle
  for an empty key too, so the handle is the key name and is never NULL.
\<close>

definition RedisModule_OpenKey :: "keyspace \<Rightarrow> RedisModuleString \<Rightarrow> RedisModuleString option" where
  "RedisModule_OpenKey db key = Some key"

definition RedisModule_KeyType :: "keyspace \<Rightarrow> RedisModuleString \<Rightarrow> keytype" where
  "RedisModule_KeyType db k =
     (case db k of
        None \<Rightarrow> REDISMODULE_KEYTYPE_EMPTY
      | Some e \<Rightarrow>
          (case stored e of
             StringVal s \<Rightarrow> REDISMODULE_KEYTYPE_STRING
           | OtherVal \<Rightarrow> REDISMODULE_KEYTYPE_OTHER))"

definition RedisModule_GetExpire :: "keyspace \<Rightarrow> RedisModuleString \<Rightarrow> int" where
  "RedisModule_GetExpire db k =
     (case db k of None \<Rightarrow> REDISMODULE_NO_EXPIRE | Some e \<Rightarrow> expire e)"

text \<open>Writing a string replaces whatever the key held and clears its expiry.\<close>

definition RedisModule_StringSet ::
  "keyspace \<Rightarrow> RedisModuleString \<Rightarrow> string \<Rightarrow> status \<times> keyspace" where
  "RedisModule_StringSet db k v =
     (REDISMODULE_OK, db(k \<mapsto> \<lparr>stored = StringVal v, expire = REDISMODULE_NO_EXPIRE\<rparr>))"

text \<open>The original file's set-if-not-exists: it writes only to an empty key.\<close>

definition RedisModule_StringSetNX ::
  "keyspace \<Rightarrow> RedisModuleString \<Rightarrow> string \<Rightarrow> status \<times> keyspace" where
  "RedisModule_StringSetNX db k v =
     (case db k of
        None \<Rightarrow> (REDISMODULE_OK, db(k \<mapsto> \<lparr>stored = StringVal v, expire = REDISMODULE_NO_EXPIRE\<rparr>))
      | Some e \<Rightarrow> (REDISMODULE_ERR, db))"

text \<open>Setting an expiry fails on an empty key and on a negative time other than the sentinel.\<close>

definition RedisModule_SetExpire ::
  "keyspace \<Rightarrow> RedisModuleString \<Rightarrow> int \<Rightarrow> status \<times> keyspace" where
  "RedisModule_SetExpire db k t =
     (case db k of
        None \<Rightarrow> (REDISMODULE_ERR, db)
      | Some e \<Rightarrow>
          if t < 0 \<and> t \<noteq> REDISMODULE_NO_EXPIRE then (REDISMODULE_ERR, db)
          else (REDISMODULE_OK, db(k \<mapsto> e\<lparr>expire := t\<rparr>)))"

definition RedisModule_DeleteKey :: "keyspace \<Rightarrow> RedisModuleString \<Rightarrow> keyspace" where
  "RedisModule_DeleteKey db k = db(k := None)"

text \<open>Reading the bytes of a key: there are none to read unless the key holds a string.\<close>

definition RedisModule_StringDMA :: "keyspace \<Rightarrow> RedisModuleString \<Rightarrow> string option" where
  "RedisModule_StringDMA db k =
     (case db k of
        None \<Rightarrow> None
      | Some e \<Rightarrow> (case stored e of StringVal v \<Rightarrow> Some v | OtherVal \<Rightarrow> None))"

definition RedisModule_StringGet :: "keyspace \<Rightarrow> RedisModuleString \<Rightarrow> string option" where
  "RedisModule_StringGet db k = RedisModule_StringDMA db k"

datatype reply =
  Reply_WrongArity
  | Reply_Error string
  | Reply_Null
  | Reply_String string
  | Reply_SimpleString string
  | Reply_Unset

text \<open>
  The original file replies with the pointer \<^verbatim>\<open>RedisModule_StringGet\<close> filled in; where
  nothing was filled in, the reply is \<open>Reply_Unset\<close>.
\<close>

definition RedisModule_ReplyWithString :: "string option \<Rightarrow> reply" where
  "RedisModule_ReplyWithString p = (case p of None \<Rightarrow> Reply_Unset | Some v \<Rightarrow> Reply_String v)"

section \<open>Configuration constants\<close>

definition REGEN_LOCK_SUFFIX :: string where
  "REGEN_LOCK_SUFFIX = '':regen_lock''"

text \<open>\<^verbatim>\<open>sizeof\<close> of the string literal counts its terminating NUL.\<close>

definition sizeof_REGEN_LOCK_SUFFIX :: nat where
  "sizeof_REGEN_LOCK_SUFFIX = length REGEN_LOCK_SUFFIX + 1"

definition MAX_KEY_LENGTH :: nat where
  "MAX_KEY_LENGTH = 512"

definition MIN_GRACE_PERIOD_MS :: int where
  "MIN_GRACE_PERIOD_MS = 100"

definition MAX_GRACE_PERIOD_MS :: int where
  "MAX_GRACE_PERIOD_MS = 24 * 60 * 60 * 1000"

definition MIN_EXPIRE_MS :: int where
  "MIN_EXPIRE_MS = 1000"

definition MAX_EXPIRE_MS :: int where
  "MAX_EXPIRE_MS = 7 * 24 * 60 * 60 * 1000"

record module_config =
  log_level :: int
  default_grace_period :: int
  max_lock_duration :: int

definition module_config_init :: module_config where
  "module_config_init =
     \<lparr>log_level = 1, default_grace_period = 5000, max_lock_duration = 30000\<rparr>"

section \<open>The original module (cache-anit-tampede.c)\<close>

text \<open>
  The lock name is built in a buffer holding the key's bytes, the suffix and a final NUL,
  and then handed to \<^verbatim>\<open>RedisModule_CreateString\<close> with \<^verbatim>\<open>strlen\<close> of the buffer as its
  length: the name ends at the first NUL byte of the buffer. Both
  \<^verbatim>\<open>TryAcquireLock\<close> and \<^verbatim>\<open>CacheGuardSetCommand\<close> build it this way.
\<close>

definition strlen :: "string \<Rightarrow> nat" where
  "strlen buf = length (takeWhile (\<lambda>c. c \<noteq> CHR 0x00) buf)"

definition lockName :: "RedisModuleString \<Rightarrow> RedisModuleString" where
  "lockName key =
     (let buf = key @ REGEN_LOCK_SUFFIX @ [CHR 0x00]
      in take (strlen buf) buf)"

definition TryAcquireLock_original ::
  "keyspace \<Rightarrow> RedisModuleString \<Rightarrow> int \<Rightarrow> int \<times> keyspace" where
  "TryAcquireLock_original db key lockExpireMs =
     (let lock = lockName key in
      if RedisModule_KeyType db lock = REDISMODULE_KEYTYPE_EMPTY then
        (let (st, db1) = RedisModule_StringSetNX db lock ''1'' in
         if st = REDISMODULE_OK
         then (1, snd (RedisModule_SetExpire db1 lock lockExpireMs))
         else (0, db1))
      else (0, db))"

text \<open>
  A command takes \<^verbatim>\<open>argc\<close>, the key \<^verbatim>\<open>argv[1]\<close> and, for its numeric argument, what
  \<^verbatim>\<open>RedisModule_StringToLongLong\<close> made of it: \<open>None\<close> when the call did not return
  \<^verbatim>\<open>REDISMODULE_OK\<close>. The arguments Redis passes are never NULL pointers, so the
  enhanced module's checks for a NULL key or value have no input and no branch here.
\<close>

definition CacheGuardGetCommand_original ::
  "keyspace \<Rightarrow> int \<Rightarrow> RedisModuleString \<Rightarrow> int option \<Rightarrow> reply \<times> keyspace" where
  "CacheGuardGetCommand_original db argc key arg2 =
     (if argc \<noteq> 3 then (Reply_WrongArity, db)
      else
        (case arg2 of
           None \<Rightarrow> (Reply_Error ''ERR invalid grace period'', db)
         | Some gracePeriodMs \<Rightarrow>
             (if gracePeriodMs < 0 then (Reply_Error ''ERR invalid grace period'', db)
              else if RedisModule_KeyType db key = REDISMODULE_KEYTYPE_EMPTY then (Reply_Null, db)
              else
                (let ttl = RedisModule_GetExpire db key;
                     val = RedisModule_StringGet db key
                 in if ttl = REDISMODULE_NO_EXPIRE \<or> ttl > gracePeriodMs
                    then (RedisModule_ReplyWithString val, db)
                    else
                      (let (lockAcquired, db1) = TryAcquireLock_original db key gracePeriodMs
                       in if lockAcquired \<noteq> 0 then (Reply_Null, db1)
                          else (RedisModule_ReplyWithString val, db1))))))"

definition CacheGuardSetCommand_original ::
  "keyspace \<Rightarrow> int \<Rightarrow> RedisModuleString \<Rightarrow> string \<Rightarrow> int option \<Rightarrow> reply \<times> keyspace" where
  "CacheGuardSetCommand_original db argc key v arg3 =
     (if argc \<noteq> 4 then (Reply_WrongArity, db)
      else
        (case arg3 of
           None \<Rightarrow> (Reply_Error ''ERR invalid expire time'', db)
         | Some expire_ms \<Rightarrow>
             (if expire_ms \<le> 0 then (Reply_Error ''ERR invalid expire time'', db)
              else
                (let db1 = snd (RedisModule_StringSet db key v);
                     db2 = snd (RedisModule_SetExpire db1 key expire_ms);
                     lock = lockName key;
                     db3 = RedisModule_DeleteKey db2 lock
                 in (Reply_SimpleString ''OK'', db3)))))"

section \<open>The enhanced module (module version 1.0.1)\<close>

text \<open>
  Logging changes neither a reply nor the keyspace and is left out.
  \<^verbatim>\<open>RedisModule_Alloc\<close> does not return NULL (Redis stops on out-of-memory), so
  \<^verbatim>\<open>CreateLockKey\<close> has two ways to give NULL: an empty key and a key that is too long.
\<close>

definition CreateLockKey :: "RedisModuleString \<Rightarrow> RedisModuleString option" where
  "CreateLockKey key =
     (let len = length key in
      if len = 0 then None
      else if len > MAX_KEY_LENGTH - sizeof_REGEN_LOCK_SUFFIX then None
      else Some (key @ REGEN_LOCK_SUFFIX))"

definition TryAcquireLock_enhanced ::
  "module_config \<Rightarrow> keyspace \<Rightarrow> RedisModuleString \<Rightarrow> int \<Rightarrow> int \<times> keyspace" where
  "TryAcquireLock_enhanced cfg db key lockExpireMs =
     (if lockExpireMs < MIN_GRACE_PERIOD_MS \<or> lockExpireMs > max_lock_duration cfg then (0, db)
      else
        (case CreateLockKey key of
           None \<Rightarrow> (0, db)
         | Some lockKey \<Rightarrow>
             (case RedisModule_OpenKey db lockKey of
                None \<Rightarrow> (0, db)
              | Some lock \<Rightarrow>
                  (if RedisModule_KeyType db lock = REDISMODULE_KEYTYPE_EMPTY then
                     (let (st1, db1) = RedisModule_StringSet db lock ''1'' in
                      if st1 = REDISMODULE_OK then
                        (let (st2, db2) = RedisModule_SetExpire db1 lock lockExpireMs in
                         if st2 = REDISMODULE_OK then (1, db2)
                         else (0, RedisModule_DeleteKey db2 lock))
                      else (0, db1))
                   else (0, db)))))"

definition CacheGuardGetCommand_enhanced ::
  "module_config \<Rightarrow> keyspace \<Rightarrow> int \<Rightarrow> RedisModuleString \<Rightarrow> int option \<Rightarrow> reply \<times> keyspace" where
  "CacheGuardGetCommand_enhanced cfg db argc key arg2 =
     (if argc \<noteq> 3 then (Reply_WrongArity, db)
      else
        (case arg2 of
           None \<Rightarrow> (Reply_Error ''ERR invalid grace period format'', db)
         | Some gracePeriodMs \<Rightarrow>
             (if gracePeriodMs < MIN_GRACE_PERIOD_MS \<or> gracePeriodMs > MAX_GRACE_PERIOD_MS
              then (Reply_Error ''ERR grace period must be between 100ms and 24 hours'', db)
              else if length key = 0 then (Reply_Error ''ERR empty key not allowed'', db)
              else if length key > MAX_KEY_LENGTH then (Reply_Error ''ERR key too long'', db)
              else
                (case RedisModule_OpenKey db key of
                   None \<Rightarrow> (Reply_Error ''ERR failed to access key'', db)
                 | Some k \<Rightarrow>
                     (if RedisModule_KeyType db k = REDISMODULE_KEYTYPE_EMPTY then (Reply_Null, db)
                      else if RedisModule_KeyType db k \<noteq> REDISMODULE_KEYTYPE_STRING
                      then (Reply_Error ''ERR key contains non-string data'', db)
                      else
                        (let ttl = RedisModule_GetExpire db k in
                         (case RedisModule_StringDMA db k of
                            None \<Rightarrow> (Reply_Error ''ERR failed to read value'', db)
                          | Some val \<Rightarrow>
                              (if ttl = REDISMODULE_NO_EXPIRE \<or> ttl > gracePeriodMs
                               then (Reply_String val, db)
                               else
                                 (let (lockAcquired, db1) =
                                        TryAcquireLock_enhanced cfg db key gracePeriodMs
                                  in if lockAcquired \<noteq> 0 then (Reply_Null, db1)
                                     else (Reply_String val, db1))))))))))"

definition CacheGuardSetCommand_enhanced ::
  "keyspace \<Rightarrow> int \<Rightarrow> RedisModuleString \<Rightarrow> string \<Rightarrow> int option \<Rightarrow> reply \<times> keyspace" where
  "CacheGuardSetCommand_enhanced db argc key v arg3 =
     (if argc \<noteq> 4 then (Reply_WrongArity, db)
      else if length key = 0 then (Reply_Error ''ERR empty key not allowed'', db)
      else if length key > MAX_KEY_LENGTH then (Reply_Error ''ERR key too long'', db)
      else if length v > 10 * 1024 * 1024 then (Reply_Error ''ERR value too large'', db)
      else
        (case arg3 of
           None \<Rightarrow> (Reply_Error ''ERR invalid expire time format'', db)
         | Some expire_ms \<Rightarrow>
             (if expire_ms < MIN_EXPIRE_MS \<or> expire_ms > MAX_EXPIRE_MS
              then (Reply_Error ''ERR expire time must be between 1 second and 7 days'', db)
              else
                (case RedisModule_OpenKey db key of
                   None \<Rightarrow> (Reply_Error ''ERR failed to access key'', db)
                 | Some k \<Rightarrow>
                     (let (st1, db1) = RedisModule_StringSet db k v in
                      if st1 \<noteq> REDISMODULE_OK
                      then (Reply_Error ''ERR failed to set value'', db1)
                      else
                        (let (st2, db2) = RedisModule_SetExpire db1 k expire_ms in
                         if st2 \<noteq> REDISMODULE_OK
                         then (Reply_Error ''ERR failed to set expiration'', db2)
                         else
                           (let db3 =
                              (case CreateLockKey key of
                                 None \<Rightarrow> db2
                               | Some lockKey \<Rightarrow>
                                   (case RedisModule_OpenKey db2 lockKey of
                                      None \<Rightarrow> db2
                                    | Some lock \<Rightarrow>
                                        (if RedisModule_KeyType db2 lock \<noteq> REDISMODULE_KEYTYPE_EMPTY
                                         then RedisModule_DeleteKey db2 lock
                                         else db2)))
                            in (Reply_SimpleString ''OK'', db3))))))))"

section \<open>Callers served one after another\<close>

text \<open>
  Redis runs a module command to completion before it starts the next one, so \<open>n\<close>
  clients calling \<^verbatim>\<open>cache.guard.get\<close> with the same key and grace period at the same
  time are \<open>n\<close> runs of the command, each on the keyspace the run before it left. The
  calls are the same, so the order in which the clients are served does not matter.
\<close>

fun serve_gets_original ::
  "keyspace \<Rightarrow> RedisModuleString \<Rightarrow> int \<Rightarrow> nat \<Rightarrow> reply list \<times> keyspace" where
  "serve_gets_original db key g 0 = ([], db)"
| "serve_gets_original db key g (Suc n) =
     (let (r, db1) = CacheGuardGetCommand_original db 3 key (Some g);
          (rs, db2) = serve_gets_original db1 key g n
      in (r # rs, db2))"

fun serve_gets_enhanced ::
  "module_config \<Rightarrow> keyspace \<Rightarrow> RedisModuleString \<Rightarrow> int \<Rightarrow> nat \<Rightarrow> reply list \<times> keyspace" where
  "serve_gets_enhanced cfg db key g 0 = ([], db)"
| "serve_gets_enhanced cfg db key g (Suc n) =
     (let (r, db1) = CacheGuardGetCommand_enhanced cfg db 3 key (Some g);
          (rs, db2) = serve_gets_enhanced cfg db1 key g n
      in (r # rs, db2))"

section \<open>Unfolding the API and the constants\<close>

lemmas api_defs =
  RedisModule_OpenKey_def RedisModule_KeyType_def RedisModule_GetExpire_def
  RedisModule_StringSet_def RedisModule_StringSetNX_def RedisModule_SetExpire_def
  RedisModule_DeleteKey_def RedisModule_StringDMA_def RedisModule_StringGet_def
  RedisModule_ReplyWithString_def

lemmas const_defs =
  REDISMODULE_NO_EXPIRE_def REGEN_LOCK_SUFFIX_def sizeof_REGEN_LOCK_SUFFIX_def
  MAX_KEY_LENGTH_def MIN_GRACE_PERIOD_MS_def MAX_GRACE_PERIOD_MS_def MIN_EXPIRE_MS_def
  MAX_EXPIRE_MS_def module_config_init_def

section \<open>Lock names\<close>

lemma takeWhile_snoc_stop: "\<not> P x \<Longrightarrow> takeWhile P (xs @ [x]) = takeWhile P xs"
  by (induction xs) auto

text \<open>The original lock name is the part of key and suffix before the first NUL byte.\<close>

lemma lockName_takeWhile:
  "lockName key = takeWhile (\<lambda>c. c \<noteq> CHR 0x00) (key @ REGEN_LOCK_SUFFIX)"
proof -
  let ?P = "\<lambda>c. c \<noteq> CHR 0x00"
  let ?buf = "(key @ REGEN_LOCK_SUFFIX) @ [CHR 0x00]"
  have "take (length (takeWhile ?P ?buf)) ?buf = takeWhile ?P ?buf"
    by (rule takeWhile_eq_take [symmetric])
  moreover have "takeWhile ?P ?buf = takeWhile ?P (key @ REGEN_LOCK_SUFFIX)"
    by (rule takeWhile_snoc_stop) simp
  ultimately show ?thesis
    by (simp add: lockName_def strlen_def Let_def)
qed

lemma lockName_no_nul:
  "CHR 0x00 \<notin> set key \<Longrightarrow> lockName key = key @ REGEN_LOCK_SUFFIX"
  by (simp add: lockName_takeWhile REGEN_LOCK_SUFFIX_def takeWhile_append)

lemma lockName_nul:
  "CHR 0x00 \<in> set key \<Longrightarrow> lockName key = takeWhile (\<lambda>c. c \<noteq> CHR 0x00) key"
  by (simp add: lockName_takeWhile)

lemma lockName_neq_key: "lockName key \<noteq> key"
proof (cases "CHR 0x00 \<in> set key")
  case True
  then have "takeWhile (\<lambda>c. c \<noteq> CHR 0x00) key \<noteq> key"
    by auto
  with True show ?thesis by (simp add: lockName_nul)
next
  case False
  then show ?thesis by (simp add: lockName_no_nul REGEN_LOCK_SUFFIX_def)
qed

lemma lockName_inj_no_nul:
  "CHR 0x00 \<notin> set k1 \<Longrightarrow> CHR 0x00 \<notin> set k2 \<Longrightarrow> lockName k1 = lockName k2 \<Longrightarrow> k1 = k2"
  by (simp add: lockName_no_nul)

text \<open>The enhanced lock key is key and suffix, for a key of 1 to 500 bytes.\<close>

lemma CreateLockKey_Some:
  "CreateLockKey key = Some lk \<longleftrightarrow>
     key \<noteq> [] \<and> length key \<le> 500 \<and> lk = key @ REGEN_LOCK_SUFFIX"
  by (auto simp: CreateLockKey_def Let_def const_defs)

lemma CreateLockKey_inj:
  "CreateLockKey k1 = Some lk \<Longrightarrow> CreateLockKey k2 = Some lk \<Longrightarrow> k1 = k2"
  by (simp add: CreateLockKey_Some)

lemma lock_suffix_neq_key: "key @ REGEN_LOCK_SUFFIX \<noteq> key"
  by (simp add: REGEN_LOCK_SUFFIX_def)

section \<open>What a lock acquisition does\<close>

lemma TryAcquireLock_original_held:
  "db (lockName key) = Some e \<Longrightarrow> TryAcquireLock_original db key d = (0, db)"
  by (simp add: TryAcquireLock_original_def api_defs Let_def split: rvalue.splits)

lemma TryAcquireLock_original_free:
  "db (lockName key) = None \<Longrightarrow>
   TryAcquireLock_original db key d =
     (1, db(lockName key \<mapsto>
        \<lparr>stored = StringVal ''1'',
         expire = (if d < 0 then REDISMODULE_NO_EXPIRE else d)\<rparr>))"
  by (auto simp: TryAcquireLock_original_def api_defs Let_def const_defs)

lemma TryAcquireLock_enhanced_eq:
  "TryAcquireLock_enhanced cfg db key d =
     (if MIN_GRACE_PERIOD_MS \<le> d \<and> d \<le> max_lock_duration cfg \<and> key \<noteq> []
         \<and> length key \<le> 500 \<and> db (key @ REGEN_LOCK_SUFFIX) = None
      then (1, db(key @ REGEN_LOCK_SUFFIX \<mapsto> \<lparr>stored = StringVal ''1'', expire = d\<rparr>))
      else (0, db))"
  by (auto simp: TryAcquireLock_enhanced_def CreateLockKey_def api_defs Let_def const_defs
      split: option.splits rvalue.splits)

section \<open>Acquiring the regeneration lock\<close>

text \<open>
  C4. \<^verbatim>\<open>TryAcquireLock\<close> returns 1 (acquired) if and only if this call created the lock
  record: the lock key held nothing before the call and holds a record after it. Whenever
  the lock key already holds a record the call returns 0 and the whole keyspace, so also
  that record's value and expiry, is as it was. In the enhanced module every call that
  does not return 1 leaves the keyspace as it was. Both modules are covered.
\<close>

theorem TryAcquireLock_acquired_iff_created:
  "(fst (TryAcquireLock_original db key d) = 1 \<longleftrightarrow>
      db (lockName key) = None \<and> snd (TryAcquireLock_original db key d) (lockName key) \<noteq> None)
   \<and> (db (lockName key) \<noteq> None \<longrightarrow> TryAcquireLock_original db key d = (0, db))
   \<and> (fst (TryAcquireLock_enhanced cfg db key d) = 1 \<longleftrightarrow>
        (\<exists>lk. CreateLockKey key = Some lk \<and> db lk = None
           \<and> snd (TryAcquireLock_enhanced cfg db key d) lk \<noteq> None))
   \<and> (fst (TryAcquireLock_enhanced cfg db key d) \<noteq> 1 \<longrightarrow>
        TryAcquireLock_enhanced cfg db key d = (0, db))
   \<and> (\<forall>lk. CreateLockKey key = Some lk \<and> db lk \<noteq> None \<longrightarrow>
        TryAcquireLock_enhanced cfg db key d = (0, db))"
proof -
  have o1: "fst (TryAcquireLock_original db key d) = 1 \<longleftrightarrow>
      db (lockName key) = None \<and> snd (TryAcquireLock_original db key d) (lockName key) \<noteq> None"
  proof (cases "db (lockName key)")
    case None
    then show ?thesis by (simp add: TryAcquireLock_original_free)
  next
    case (Some e)
    then show ?thesis by (simp add: TryAcquireLock_original_held)
  qed
  have o2: "db (lockName key) \<noteq> None \<longrightarrow> TryAcquireLock_original db key d = (0, db)"
    by (auto simp: TryAcquireLock_original_held)
  have e1: "fst (TryAcquireLock_enhanced cfg db key d) = 1 \<longleftrightarrow>
        (\<exists>lk. CreateLockKey key = Some lk \<and> db lk = None
           \<and> snd (TryAcquireLock_enhanced cfg db key d) lk \<noteq> None)"
    by (auto simp: TryAcquireLock_enhanced_eq CreateLockKey_Some)
  have e2: "fst (TryAcquireLock_enhanced cfg db key d) \<noteq> 1 \<longrightarrow>
        TryAcquireLock_enhanced cfg db key d = (0, db)"
    by (simp add: TryAcquireLock_enhanced_eq)
  have e3: "\<forall>lk. CreateLockKey key = Some lk \<and> db lk \<noteq> None \<longrightarrow>
        TryAcquireLock_enhanced cfg db key d = (0, db)"
    by (auto simp: TryAcquireLock_enhanced_eq CreateLockKey_Some)
  from o1 o2 e1 e2 e3 show ?thesis by blast
qed

text \<open>
  At the key \<open>k\<close>: with the lock record present both modules return 0 and keep the
  keyspace; on the empty keyspace both acquire.
\<close>

theorem TryAcquireLock_acquired_iff_created_witness:
  "CreateLockKey ''k'' = Some ''k:regen_lock''
   \<and> [''k:regen_lock'' \<mapsto> \<lparr>stored = StringVal ''1'', expire = 4000\<rparr>] ''k:regen_lock'' \<noteq> None
   \<and> TryAcquireLock_enhanced module_config_init
        [''k:regen_lock'' \<mapsto> \<lparr>stored = StringVal ''1'', expire = 4000\<rparr>] ''k'' 5000
      = (0, [''k:regen_lock'' \<mapsto> \<lparr>stored = StringVal ''1'', expire = 4000\<rparr>])
   \<and> lockName ''k'' = ''k:regen_lock''
   \<and> TryAcquireLock_original
        [''k:regen_lock'' \<mapsto> \<lparr>stored = StringVal ''1'', expire = 4000\<rparr>] ''k'' 5000
      = (0, [''k:regen_lock'' \<mapsto> \<lparr>stored = StringVal ''1'', expire = 4000\<rparr>])
   \<and> fst (TryAcquireLock_original Map.empty ''k'' 5000) = 1
   \<and> fst (TryAcquireLock_enhanced module_config_init Map.empty ''k'' 5000) = 1"
proof -
  let ?db = "[''k:regen_lock'' \<mapsto> \<lparr>stored = StringVal ''1'', expire = 4000\<rparr>]"
  have ck: "CreateLockKey ''k'' = Some ''k:regen_lock''"
    by (simp add: CreateLockKey_Some REGEN_LOCK_SUFFIX_def)
  have ln: "lockName ''k'' = ''k:regen_lock''"
    by (simp add: lockName_no_nul REGEN_LOCK_SUFFIX_def)
  have held: "?db ''k:regen_lock'' \<noteq> None" by simp
  note th = TryAcquireLock_acquired_iff_created [of ?db "''k''" 5000 module_config_init]
  note th0 = TryAcquireLock_acquired_iff_created [of Map.empty "''k''" 5000 module_config_init]
  have "CreateLockKey ''k'' = Some ''k:regen_lock'' \<and> ?db ''k:regen_lock'' \<noteq> None \<longrightarrow>
        TryAcquireLock_enhanced module_config_init ?db ''k'' 5000 = (0, ?db)"
    by (rule spec [OF th [THEN conjunct2, THEN conjunct2, THEN conjunct2, THEN conjunct2]])
  with ck held have a: "TryAcquireLock_enhanced module_config_init ?db ''k'' 5000 = (0, ?db)"
    by (rule_tac mp) auto
  have "?db (lockName ''k'') \<noteq> None \<longrightarrow> TryAcquireLock_original ?db ''k'' 5000 = (0, ?db)"
    by (rule th [THEN conjunct2, THEN conjunct1])
  with ln have b: "TryAcquireLock_original ?db ''k'' 5000 = (0, ?db)"
    by simp
  have c0: "Map.empty (lockName ''k'') = None
      \<and> snd (TryAcquireLock_original Map.empty ''k'' 5000) (lockName ''k'') \<noteq> None"
    by (simp add: TryAcquireLock_original_free)
  have c: "fst (TryAcquireLock_original Map.empty ''k'' 5000) = 1"
    by (rule iffD2 [OF th0 [THEN conjunct1] c0])
  have d0: "\<exists>lk. CreateLockKey ''k'' = Some lk \<and> Map.empty lk = None
      \<and> snd (TryAcquireLock_enhanced module_config_init Map.empty ''k'' 5000) lk \<noteq> None"
    by (simp add: ck TryAcquireLock_enhanced_eq const_defs)
  have d: "fst (TryAcquireLock_enhanced module_config_init Map.empty ''k'' 5000) = 1"
    by (rule iffD2 [OF th0 [THEN conjunct2, THEN conjunct2, THEN conjunct1] d0])
  from ck ln held a b c d show ?thesis by simp
qed

text \<open>
  C7, as the code has it. \<^verbatim>\<open>TryAcquireLock\<close> returns an \<^verbatim>\<open>int\<close> that is 0 or 1 and has no
  way to report an error. In the enhanced module a lock duration below
  \<^verbatim>\<open>MIN_GRACE_PERIOD_MS\<close> or above \<^verbatim>\<open>max_lock_duration\<close> makes it return 0, the value it
  returns when the lock is held by somebody else, and the keyspace is left as it was.
\<close>

theorem TryAcquireLock_enhanced_invalid_duration:
  "d < MIN_GRACE_PERIOD_MS \<or> d > max_lock_duration cfg \<Longrightarrow>
   TryAcquireLock_enhanced cfg db key d = (0, db)"
  by (auto simp: TryAcquireLock_enhanced_eq)

theorem TryAcquireLock_enhanced_invalid_duration_witness:
  "(30001 :: int) > max_lock_duration module_config_init
   \<and> TryAcquireLock_enhanced module_config_init Map.empty ''k'' 30001 = (0, Map.empty)"
proof -
  have h: "(30001 :: int) > max_lock_duration module_config_init"
    by (simp add: module_config_init_def)
  then have "(30001 :: int) < MIN_GRACE_PERIOD_MS \<or> 30001 > max_lock_duration module_config_init"
    by simp
  from TryAcquireLock_enhanced_invalid_duration [OF this] h show ?thesis by simp
qed

text \<open>
  Against C7 as stated: a lock duration of 30001 ms, above the default maximum of
  30000 ms, gives exactly the result of a lock that is held (0, keyspace unchanged), the
  client of \<^verbatim>\<open>cache.guard.get\<close> is answered with the stored value and not with an error,
  and the original module takes the lock for a duration of 50 ms, below the minimum.
\<close>

theorem invalid_lock_duration_is_not_acquired:
  "TryAcquireLock_enhanced module_config_init Map.empty ''k'' 30001 = (0, Map.empty)
   \<and> TryAcquireLock_enhanced module_config_init
        [''k:regen_lock'' \<mapsto> \<lparr>stored = StringVal ''1'', expire = 4000\<rparr>] ''k'' 5000
      = (0, [''k:regen_lock'' \<mapsto> \<lparr>stored = StringVal ''1'', expire = 4000\<rparr>])
   \<and> fst (CacheGuardGetCommand_enhanced module_config_init
        [''k'' \<mapsto> \<lparr>stored = StringVal ''old'', expire = 20000\<rparr>] 3 ''k'' (Some 30001))
      = Reply_String ''old''
   \<and> fst (TryAcquireLock_original Map.empty ''k'' 50) = 1"
  by (simp add: TryAcquireLock_enhanced_eq CacheGuardGetCommand_enhanced_def
      TryAcquireLock_original_free lockName_no_nul api_defs const_defs)

section \<open>What a get does to a key that holds a string\<close>

text \<open>
  For a key that holds a string and arguments that pass validation, the command serves
  the stored value when the key has no expiry or its remaining time is above the grace
  period; otherwise it tries the lock, answers null when it got it and the stored value
  when it did not.
\<close>

lemma Get_enhanced_string_entry:
  assumes "MIN_GRACE_PERIOD_MS \<le> g" "g \<le> MAX_GRACE_PERIOD_MS"
    and "key \<noteq> []" "length key \<le> MAX_KEY_LENGTH"
    and "db key = Some e" "stored e = StringVal v"
  shows "CacheGuardGetCommand_enhanced cfg db 3 key (Some g) =
     (if expire e = REDISMODULE_NO_EXPIRE \<or> g < expire e then (Reply_String v, db)
      else if g \<le> max_lock_duration cfg \<and> length key \<le> 500
              \<and> db (key @ REGEN_LOCK_SUFFIX) = None
      then (Reply_Null, db(key @ REGEN_LOCK_SUFFIX \<mapsto> \<lparr>stored = StringVal ''1'', expire = g\<rparr>))
      else (Reply_String v, db))"
  using assms
  by (simp add: CacheGuardGetCommand_enhanced_def TryAcquireLock_enhanced_eq api_defs Let_def)

lemma Get_original_string_entry:
  assumes "0 \<le> g" and "db key = Some e" "stored e = StringVal v"
  shows "CacheGuardGetCommand_original db 3 key (Some g) =
     (if expire e = REDISMODULE_NO_EXPIRE \<or> g < expire e then (Reply_String v, db)
      else if db (lockName key) = None
      then (Reply_Null, db(lockName key \<mapsto> \<lparr>stored = StringVal ''1'', expire = g\<rparr>))
      else (Reply_String v, db))"
proof (cases "db (lockName key)")
  case None
  with assms show ?thesis
    by (simp add: CacheGuardGetCommand_original_def TryAcquireLock_original_free api_defs Let_def)
next
  case (Some l)
  with assms show ?thesis
    by (simp add: CacheGuardGetCommand_original_def TryAcquireLock_original_held api_defs Let_def)
qed


lemma serve_gets_enhanced_fixed:
  "CacheGuardGetCommand_enhanced cfg db 3 key (Some g) = (r, db) \<Longrightarrow>
   serve_gets_enhanced cfg db key g n = (replicate n r, db)"
  by (induction n) simp_all

section \<open>Grace periods and the lock duration\<close>

text \<open>
  C3. In the enhanced module, for every grace period above the configured
  \<^verbatim>\<open>max_lock_duration\<close> (and within the accepted range of 100 ms to 24 hours), a get on
  a string entry whose remaining time is at most the grace period (in grace, or expired)
  is answered with the stored value and leaves the keyspace as it was, whatever the
  keyspace holds, so also when no lock record exists: \<^verbatim>\<open>TryAcquireLock\<close> returns 0 for
  the lock duration it is given. However many callers are served, none is told to
  regenerate.
\<close>

theorem grace_above_max_lock_never_regenerates:
  assumes "max_lock_duration cfg < g"
    and "MIN_GRACE_PERIOD_MS \<le> g" "g \<le> MAX_GRACE_PERIOD_MS"
    and "key \<noteq> []" "length key \<le> MAX_KEY_LENGTH"
    and "db key = Some e" "stored e = StringVal v"
    and "expire e \<le> g" "expire e \<noteq> REDISMODULE_NO_EXPIRE"
  shows "TryAcquireLock_enhanced cfg db key g = (0, db)
     \<and> CacheGuardGetCommand_enhanced cfg db 3 key (Some g) = (Reply_String v, db)
     \<and> serve_gets_enhanced cfg db key g n = (replicate n (Reply_String v), db)"
proof -
  have lock: "TryAcquireLock_enhanced cfg db key g = (0, db)"
    using assms(1) by (simp add: TryAcquireLock_enhanced_eq)
  have one: "CacheGuardGetCommand_enhanced cfg db 3 key (Some g) = (Reply_String v, db)"
    using assms by (simp add: Get_enhanced_string_entry)
  from lock one serve_gets_enhanced_fixed [OF one] show ?thesis by simp
qed

theorem grace_above_max_lock_never_regenerates_witness:
  "max_lock_duration module_config_init < 30001
   \<and> TryAcquireLock_enhanced module_config_init
        [''k'' \<mapsto> \<lparr>stored = StringVal ''old'', expire = 20000\<rparr>] ''k'' 30001
       = (0, [''k'' \<mapsto> \<lparr>stored = StringVal ''old'', expire = 20000\<rparr>])
   \<and> CacheGuardGetCommand_enhanced module_config_init
        [''k'' \<mapsto> \<lparr>stored = StringVal ''old'', expire = 20000\<rparr>] 3 ''k'' (Some 30001)
       = (Reply_String ''old'', [''k'' \<mapsto> \<lparr>stored = StringVal ''old'', expire = 20000\<rparr>])
   \<and> serve_gets_enhanced module_config_init
        [''k'' \<mapsto> \<lparr>stored = StringVal ''old'', expire = 20000\<rparr>] ''k'' 30001 2
       = ([Reply_String ''old'', Reply_String ''old''],
          [''k'' \<mapsto> \<lparr>stored = StringVal ''old'', expire = 20000\<rparr>])"
proof -
  let ?e = "\<lparr>stored = StringVal ''old'', expire = 20000\<rparr>"
  let ?db = "[''k'' \<mapsto> ?e]"
  have h1: "max_lock_duration module_config_init < 30001"
    by (simp add: module_config_init_def)
  have h2: "MIN_GRACE_PERIOD_MS \<le> 30001" "30001 \<le> MAX_GRACE_PERIOD_MS"
    by (simp_all add: const_defs)
  have h3: "''k'' \<noteq> []" "length ''k'' \<le> MAX_KEY_LENGTH"
    by (simp_all add: const_defs)
  have h4: "?db ''k'' = Some ?e" "stored ?e = StringVal ''old''"
    by simp_all
  have h5: "expire ?e \<le> 30001" "expire ?e \<noteq> REDISMODULE_NO_EXPIRE"
    by (simp_all add: const_defs)
  have r2: "replicate 2 (Reply_String ''old'') = [Reply_String ''old'', Reply_String ''old'']"
    by (simp add: numeral_2_eq_2)
  note th = grace_above_max_lock_never_regenerates
    [where cfg = module_config_init and g = 30001 and key = "''k''" and db = ?db
       and e = ?e and v = "''old''" and n = 2]
  from th [OF h1 h2 h3 h4 h5] h1 r2
  show ?thesis by simp
qed

text \<open>
  C6. A grace period outside \<^verbatim>\<open>MIN_GRACE_PERIOD_MS\<close> .. \<^verbatim>\<open>MAX_GRACE_PERIOD_MS\<close> makes the
  enhanced get reply with its range error, for every key and every keyspace, and the
  keyspace is returned as it was: the check comes before the key is opened. The original
  module has the lower bound 0 and no upper bound, and rejects a negative grace period
  in the same way.
\<close>

theorem grace_out_of_range_rejected:
  "(g < MIN_GRACE_PERIOD_MS \<or> g > MAX_GRACE_PERIOD_MS \<longrightarrow>
      CacheGuardGetCommand_enhanced cfg db 3 key (Some g) =
        (Reply_Error ''ERR grace period must be between 100ms and 24 hours'', db))
   \<and> (g < 0 \<longrightarrow>
      CacheGuardGetCommand_original db 3 key (Some g) =
        (Reply_Error ''ERR invalid grace period'', db))"
  by (simp add: CacheGuardGetCommand_enhanced_def CacheGuardGetCommand_original_def)

theorem grace_out_of_range_rejected_witness:
  "(50 :: int) < MIN_GRACE_PERIOD_MS
   \<and> CacheGuardGetCommand_enhanced module_config_init
        [''k'' \<mapsto> \<lparr>stored = StringVal ''v'', expire = 10\<rparr>] 3 ''k'' (Some 50)
      = (Reply_Error ''ERR grace period must be between 100ms and 24 hours'',
         [''k'' \<mapsto> \<lparr>stored = StringVal ''v'', expire = 10\<rparr>])
   \<and> CacheGuardGetCommand_original
        [''k'' \<mapsto> \<lparr>stored = StringVal ''v'', expire = 10\<rparr>] 3 ''k'' (Some (- 1))
      = (Reply_Error ''ERR invalid grace period'',
         [''k'' \<mapsto> \<lparr>stored = StringVal ''v'', expire = 10\<rparr>])"
proof -
  let ?db = "[''k'' \<mapsto> \<lparr>stored = StringVal ''v'', expire = 10\<rparr>]"
  have h: "(50 :: int) < MIN_GRACE_PERIOD_MS" by (simp add: MIN_GRACE_PERIOD_MS_def)
  then have h': "(50 :: int) < MIN_GRACE_PERIOD_MS \<or> 50 > MAX_GRACE_PERIOD_MS" by simp
  have a: "CacheGuardGetCommand_enhanced module_config_init ?db 3 ''k'' (Some 50)
      = (Reply_Error ''ERR grace period must be between 100ms and 24 hours'', ?db)"
    by (rule mp [OF grace_out_of_range_rejected [THEN conjunct1] h'])
  have n: "(- 1 :: int) < 0" by simp
  have b: "CacheGuardGetCommand_original ?db 3 ''k'' (Some (- 1))
      = (Reply_Error ''ERR invalid grace period'', ?db)"
    by (rule mp [OF grace_out_of_range_rejected [THEN conjunct2] n])
  from h a b show ?thesis by simp
qed

section \<open>Entries at and past their expiry\<close>

text \<open>
  C1, as the code has it. A string entry whose remaining time is zero or less is not
  treated as absent: the get goes to the regeneration lock. When a lock record for the
  key is already there, the get answers with the entry's old value. When there is none
  and the lock can be taken, the get answers null (regenerate). In the enhanced module
  the lock key is the one \<open>CreateLockKey\<close> derives, and the lock can be taken when the
  grace period is at most \<^verbatim>\<open>max_lock_duration\<close>; nothing is said here about a free lock
  with a longer grace period or about a key with no lock key.
\<close>

theorem expired_entry_takes_lock_path:
  assumes "MIN_GRACE_PERIOD_MS \<le> g" "g \<le> MAX_GRACE_PERIOD_MS"
    and "key \<noteq> []" "length key \<le> MAX_KEY_LENGTH"
    and "db key = Some e" "stored e = StringVal v"
    and "expire e \<le> 0" "expire e \<noteq> REDISMODULE_NO_EXPIRE"
  shows "(\<forall>lk. CreateLockKey key = Some lk \<and> db lk \<noteq> None \<longrightarrow>
            fst (CacheGuardGetCommand_enhanced cfg db 3 key (Some g)) = Reply_String v)
     \<and> (\<forall>lk. CreateLockKey key = Some lk \<and> db lk = None
              \<and> g \<le> max_lock_duration cfg \<longrightarrow>
            fst (CacheGuardGetCommand_enhanced cfg db 3 key (Some g)) = Reply_Null)
     \<and> (db (lockName key) \<noteq> None \<longrightarrow>
            fst (CacheGuardGetCommand_original db 3 key (Some g)) = Reply_String v)
     \<and> (db (lockName key) = None \<longrightarrow>
            fst (CacheGuardGetCommand_original db 3 key (Some g)) = Reply_Null)"
proof -
  from assms(1) have g0: "0 \<le> g" by (simp add: MIN_GRACE_PERIOD_MS_def)
  with assms(7) have le: "expire e \<le> g" by simp
  note en = Get_enhanced_string_entry
    [where db = db and key = key and cfg = cfg, OF assms(1-6)]
  note og = Get_original_string_entry [where db = db and key = key, OF g0 assms(5,6)]
  have held_en: "\<forall>lk. CreateLockKey key = Some lk \<and> db lk \<noteq> None \<longrightarrow>
            fst (CacheGuardGetCommand_enhanced cfg db 3 key (Some g)) = Reply_String v"
    using le assms(8) by (auto simp: en CreateLockKey_Some)
  have free_en: "\<forall>lk. CreateLockKey key = Some lk \<and> db lk = None
              \<and> g \<le> max_lock_duration cfg \<longrightarrow>
            fst (CacheGuardGetCommand_enhanced cfg db 3 key (Some g)) = Reply_Null"
    using le assms(8) by (auto simp: en CreateLockKey_Some)
  have held_og: "db (lockName key) \<noteq> None \<longrightarrow>
            fst (CacheGuardGetCommand_original db 3 key (Some g)) = Reply_String v"
    using le assms(8) by (auto simp: og)
  have free_og: "db (lockName key) = None \<longrightarrow>
            fst (CacheGuardGetCommand_original db 3 key (Some g)) = Reply_Null"
    using le assms(8) by (auto simp: og)
  from held_en free_en held_og free_og show ?thesis by blast
qed

theorem expired_entry_takes_lock_path_witness:
  "fst (CacheGuardGetCommand_enhanced module_config_init
          [''k'' \<mapsto> \<lparr>stored = StringVal ''old'', expire = 0\<rparr>] 3 ''k'' (Some 5000))
     = Reply_Null
   \<and> fst (CacheGuardGetCommand_original
          [''k'' \<mapsto> \<lparr>stored = StringVal ''old'', expire = 0\<rparr>] 3 ''k'' (Some 5000))
     = Reply_Null
   \<and> fst (CacheGuardGetCommand_enhanced module_config_init
          [''u'' \<mapsto> \<lparr>stored = StringVal ''w'', expire = 0\<rparr>,
           ''u:regen_lock'' \<mapsto> \<lparr>stored = StringVal ''1'', expire = 90\<rparr>] 3 ''u'' (Some 100))
     = Reply_String ''w''
   \<and> fst (CacheGuardGetCommand_original
          [''u'' \<mapsto> \<lparr>stored = StringVal ''w'', expire = 0\<rparr>,
           ''u:regen_lock'' \<mapsto> \<lparr>stored = StringVal ''1'', expire = 90\<rparr>] 3 ''u'' (Some 100))
     = Reply_String ''w''"
proof -
  let ?e = "\<lparr>stored = StringVal ''old'', expire = 0\<rparr>"
  let ?db = "[''k'' \<mapsto> ?e]"
  let ?f = "\<lparr>stored = StringVal ''w'', expire = 0\<rparr>"
  let ?dbu = "[''u'' \<mapsto> ?f, ''u:regen_lock'' \<mapsto> \<lparr>stored = StringVal ''1'', expire = 90\<rparr>]"
  have h1: "MIN_GRACE_PERIOD_MS \<le> 5000" "5000 \<le> MAX_GRACE_PERIOD_MS"
    by (simp_all add: const_defs)
  have h1u: "MIN_GRACE_PERIOD_MS \<le> 100" "100 \<le> MAX_GRACE_PERIOD_MS"
    by (simp_all add: const_defs)
  have h2: "''k'' \<noteq> []" "length ''k'' \<le> MAX_KEY_LENGTH"
    by (simp_all add: const_defs)
  have h2u: "''u'' \<noteq> []" "length ''u'' \<le> MAX_KEY_LENGTH"
    by (simp_all add: const_defs)
  have h3: "?db ''k'' = Some ?e" "stored ?e = StringVal ''old''"
    by simp_all
  have h3u: "?dbu ''u'' = Some ?f" "stored ?f = StringVal ''w''"
    by simp_all
  have h4: "expire ?e \<le> 0" "expire ?e \<noteq> REDISMODULE_NO_EXPIRE"
    by (simp_all add: const_defs)
  have h4u: "expire ?f \<le> 0" "expire ?f \<noteq> REDISMODULE_NO_EXPIRE"
    by (simp_all add: const_defs)
  note free = expired_entry_takes_lock_path
    [where cfg = module_config_init and g = 5000 and key = "''k''" and db = ?db
       and e = ?e and v = "''old''", OF h1 h2 h3 h4]
  note held = expired_entry_takes_lock_path
    [where cfg = module_config_init and g = 100 and key = "''u''" and db = ?dbu
       and e = ?f and v = "''w''", OF h1u h2u h3u h4u]
  have ck: "CreateLockKey ''k'' = Some ''k:regen_lock'' \<and> ?db ''k:regen_lock'' = None
      \<and> 5000 \<le> max_lock_duration module_config_init"
    by (simp add: CreateLockKey_Some const_defs)
  have cu: "CreateLockKey ''u'' = Some ''u:regen_lock'' \<and> ?dbu ''u:regen_lock'' \<noteq> None"
    by (simp add: CreateLockKey_Some const_defs)
  have lk: "?db (lockName ''k'') = None"
    by (simp add: lockName_no_nul REGEN_LOCK_SUFFIX_def)
  have lu: "?dbu (lockName ''u'') \<noteq> None"
    by (simp add: lockName_no_nul REGEN_LOCK_SUFFIX_def)
  have a1: "fst (CacheGuardGetCommand_enhanced module_config_init ?db 3 ''k'' (Some 5000))
      = Reply_Null"
    by (rule mp [OF spec [OF free [THEN conjunct2, THEN conjunct1]] ck])
  have a2: "fst (CacheGuardGetCommand_original ?db 3 ''k'' (Some 5000)) = Reply_Null"
    by (rule mp [OF free [THEN conjunct2, THEN conjunct2, THEN conjunct2] lk])
  have a3: "fst (CacheGuardGetCommand_enhanced module_config_init ?dbu 3 ''u'' (Some 100))
      = Reply_String ''w''"
    by (rule mp [OF spec [OF held [THEN conjunct1]] cu])
  have a4: "fst (CacheGuardGetCommand_original ?dbu 3 ''u'' (Some 100)) = Reply_String ''w''"
    by (rule mp [OF held [THEN conjunct2, THEN conjunct2, THEN conjunct1] lu])
  from a1 a2 a3 a4 show ?thesis by simp
qed

text \<open>
  Against C1 as stated: the entry \<open>k\<close> has a remaining time of 0 and the lock for
  \<open>k\<close> is held. Both modules answer with the old value and change nothing.
\<close>

theorem expired_entry_served_stale:
  "CacheGuardGetCommand_enhanced module_config_init
     [''k'' \<mapsto> \<lparr>stored = StringVal ''old'', expire = 0\<rparr>,
      ''k:regen_lock'' \<mapsto> \<lparr>stored = StringVal ''1'', expire = 4000\<rparr>] 3 ''k'' (Some 5000)
     = (Reply_String ''old'',
        [''k'' \<mapsto> \<lparr>stored = StringVal ''old'', expire = 0\<rparr>,
         ''k:regen_lock'' \<mapsto> \<lparr>stored = StringVal ''1'', expire = 4000\<rparr>])
   \<and> CacheGuardGetCommand_original
     [''k'' \<mapsto> \<lparr>stored = StringVal ''old'', expire = 0\<rparr>,
      ''k:regen_lock'' \<mapsto> \<lparr>stored = StringVal ''1'', expire = 4000\<rparr>] 3 ''k'' (Some 5000)
     = (Reply_String ''old'',
        [''k'' \<mapsto> \<lparr>stored = StringVal ''old'', expire = 0\<rparr>,
         ''k:regen_lock'' \<mapsto> \<lparr>stored = StringVal ''1'', expire = 4000\<rparr>])"
  by (simp add: CacheGuardGetCommand_enhanced_def CacheGuardGetCommand_original_def
      TryAcquireLock_enhanced_eq TryAcquireLock_original_held lockName_no_nul
      api_defs const_defs)

text \<open>
  C10. Take any keyspace in which the key holds a string. When the entry has no expiry
  or its remaining time is strictly above the grace period, the get serves the stored
  value, leaves the keyspace untouched and never looks at the lock. When the remaining
  time is at most the grace period, the boundary \<open>expire e = g\<close> included, the reply
  is decided by the lock attempt: null when \<^verbatim>\<open>TryAcquireLock\<close> returns non-zero, the
  stored value otherwise; with a lock that is free and can be taken that is null, and the
  lock record is created.
\<close>

theorem fresh_iff_ttl_above_grace:
  assumes "MIN_GRACE_PERIOD_MS \<le> g" "g \<le> MAX_GRACE_PERIOD_MS"
    and "key \<noteq> []" "length key \<le> MAX_KEY_LENGTH"
    and "db key = Some e" "stored e = StringVal v"
  shows "(expire e = REDISMODULE_NO_EXPIRE \<or> g < expire e \<longrightarrow>
            CacheGuardGetCommand_enhanced cfg db 3 key (Some g) = (Reply_String v, db)
          \<and> CacheGuardGetCommand_original db 3 key (Some g) = (Reply_String v, db))
     \<and> (expire e \<noteq> REDISMODULE_NO_EXPIRE \<and> expire e \<le> g \<longrightarrow>
            CacheGuardGetCommand_enhanced cfg db 3 key (Some g) =
              (if fst (TryAcquireLock_enhanced cfg db key g) \<noteq> 0
               then Reply_Null else Reply_String v,
               snd (TryAcquireLock_enhanced cfg db key g))
          \<and> CacheGuardGetCommand_original db 3 key (Some g) =
              (if fst (TryAcquireLock_original db key g) \<noteq> 0
               then Reply_Null else Reply_String v,
               snd (TryAcquireLock_original db key g)))
     \<and> (expire e \<noteq> REDISMODULE_NO_EXPIRE \<and> expire e \<le> g
          \<and> g \<le> max_lock_duration cfg \<and> length key \<le> 500
          \<and> db (key @ REGEN_LOCK_SUFFIX) = None \<longrightarrow>
            CacheGuardGetCommand_enhanced cfg db 3 key (Some g) =
              (Reply_Null,
               db(key @ REGEN_LOCK_SUFFIX \<mapsto> \<lparr>stored = StringVal ''1'', expire = g\<rparr>)))
     \<and> (expire e \<noteq> REDISMODULE_NO_EXPIRE \<and> expire e \<le> g
          \<and> db (lockName key) = None \<longrightarrow>
            CacheGuardGetCommand_original db 3 key (Some g) =
              (Reply_Null, db(lockName key \<mapsto> \<lparr>stored = StringVal ''1'', expire = g\<rparr>)))"
proof -
  from assms(1) have g0: "0 \<le> g" by (simp add: MIN_GRACE_PERIOD_MS_def)
  note en = Get_enhanced_string_entry
    [where db = db and key = key and cfg = cfg, OF assms]
  note og = Get_original_string_entry [where db = db and key = key, OF g0 assms(5,6)]
  have fresh: "expire e = REDISMODULE_NO_EXPIRE \<or> g < expire e \<longrightarrow>
            CacheGuardGetCommand_enhanced cfg db 3 key (Some g) = (Reply_String v, db)
          \<and> CacheGuardGetCommand_original db 3 key (Some g) = (Reply_String v, db)"
    by (auto simp: en og)
  have grace_en: "expire e \<noteq> REDISMODULE_NO_EXPIRE \<and> expire e \<le> g \<longrightarrow>
            CacheGuardGetCommand_enhanced cfg db 3 key (Some g) =
              (if fst (TryAcquireLock_enhanced cfg db key g) \<noteq> 0
               then Reply_Null else Reply_String v,
               snd (TryAcquireLock_enhanced cfg db key g))"
    using assms(1,3) by (auto simp: en TryAcquireLock_enhanced_eq)
  have grace_og: "expire e \<noteq> REDISMODULE_NO_EXPIRE \<and> expire e \<le> g \<longrightarrow>
            CacheGuardGetCommand_original db 3 key (Some g) =
              (if fst (TryAcquireLock_original db key g) \<noteq> 0
               then Reply_Null else Reply_String v,
               snd (TryAcquireLock_original db key g))"
  proof (cases "db (lockName key)")
    case None
    with g0 show ?thesis by (auto simp: og TryAcquireLock_original_free)
  next
    case (Some l)
    then show ?thesis by (auto simp: og TryAcquireLock_original_held)
  qed
  have free_en: "expire e \<noteq> REDISMODULE_NO_EXPIRE \<and> expire e \<le> g
          \<and> g \<le> max_lock_duration cfg \<and> length key \<le> 500
          \<and> db (key @ REGEN_LOCK_SUFFIX) = None \<longrightarrow>
            CacheGuardGetCommand_enhanced cfg db 3 key (Some g) =
              (Reply_Null,
               db(key @ REGEN_LOCK_SUFFIX \<mapsto> \<lparr>stored = StringVal ''1'', expire = g\<rparr>))"
    by (auto simp: en)
  have free_og: "expire e \<noteq> REDISMODULE_NO_EXPIRE \<and> expire e \<le> g
          \<and> db (lockName key) = None \<longrightarrow>
            CacheGuardGetCommand_original db 3 key (Some g) =
              (Reply_Null, db(lockName key \<mapsto> \<lparr>stored = StringVal ''1'', expire = g\<rparr>))"
    by (auto simp: og)
  from fresh grace_en grace_og free_en free_og show ?thesis by blast
qed

theorem fresh_iff_ttl_above_grace_witness:
  "CacheGuardGetCommand_enhanced module_config_init
      [''k'' \<mapsto> \<lparr>stored = StringVal ''v'', expire = 5000\<rparr>] 3 ''k'' (Some 5000)
     = (Reply_Null,
        [''k'' \<mapsto> \<lparr>stored = StringVal ''v'', expire = 5000\<rparr>,
         ''k:regen_lock'' \<mapsto> \<lparr>stored = StringVal ''1'', expire = 5000\<rparr>])
   \<and> CacheGuardGetCommand_original
      [''k'' \<mapsto> \<lparr>stored = StringVal ''v'', expire = 5000\<rparr>] 3 ''k'' (Some 5000)
     = (Reply_Null,
        [''k'' \<mapsto> \<lparr>stored = StringVal ''v'', expire = 5000\<rparr>,
         ''k:regen_lock'' \<mapsto> \<lparr>stored = StringVal ''1'', expire = 5000\<rparr>])
   \<and> CacheGuardGetCommand_enhanced module_config_init
      [''k'' \<mapsto> \<lparr>stored = StringVal ''v'', expire = 5001\<rparr>] 3 ''k'' (Some 5000)
     = (Reply_String ''v'', [''k'' \<mapsto> \<lparr>stored = StringVal ''v'', expire = 5001\<rparr>])
   \<and> CacheGuardGetCommand_original
      [''k'' \<mapsto> \<lparr>stored = StringVal ''v'', expire = 5001\<rparr>] 3 ''k'' (Some 5000)
     = (Reply_String ''v'', [''k'' \<mapsto> \<lparr>stored = StringVal ''v'', expire = 5001\<rparr>])"
proof -
  let ?e = "\<lparr>stored = StringVal ''v'', expire = 5000\<rparr>"
  let ?f = "\<lparr>stored = StringVal ''v'', expire = 5001\<rparr>"
  have h1: "MIN_GRACE_PERIOD_MS \<le> 5000" "5000 \<le> MAX_GRACE_PERIOD_MS"
    by (simp_all add: const_defs)
  have h2: "''k'' \<noteq> []" "length ''k'' \<le> MAX_KEY_LENGTH"
    by (simp_all add: const_defs)
  have h3: "[''k'' \<mapsto> ?e] ''k'' = Some ?e" "stored ?e = StringVal ''v''"
    by simp_all
  have h3': "[''k'' \<mapsto> ?f] ''k'' = Some ?f" "stored ?f = StringVal ''v''"
    by simp_all
  note at_bound = fresh_iff_ttl_above_grace
    [where cfg = module_config_init and g = 5000 and key = "''k''"
       and db = "[''k'' \<mapsto> ?e]" and e = ?e and v = "''v''", OF h1 h2 h3]
  note above = fresh_iff_ttl_above_grace
    [where cfg = module_config_init and g = 5000 and key = "''k''"
       and db = "[''k'' \<mapsto> ?f]" and e = ?f and v = "''v''", OF h1 h2 h3']
  have b1: "expire ?e \<noteq> REDISMODULE_NO_EXPIRE \<and> expire ?e \<le> 5000
      \<and> 5000 \<le> max_lock_duration module_config_init \<and> length ''k'' \<le> 500
      \<and> [''k'' \<mapsto> ?e] (''k'' @ REGEN_LOCK_SUFFIX) = None"
    by (simp add: const_defs)
  have b2: "expire ?e \<noteq> REDISMODULE_NO_EXPIRE \<and> expire ?e \<le> 5000
      \<and> [''k'' \<mapsto> ?e] (lockName ''k'') = None"
    by (simp add: const_defs lockName_no_nul)
  have a1: "CacheGuardGetCommand_enhanced module_config_init [''k'' \<mapsto> ?e] 3 ''k'' (Some 5000)
      = (Reply_Null, [''k'' \<mapsto> ?e](''k'' @ REGEN_LOCK_SUFFIX \<mapsto>
           \<lparr>stored = StringVal ''1'', expire = 5000\<rparr>))"
    by (rule mp [OF at_bound [THEN conjunct2, THEN conjunct2, THEN conjunct1] b1])
  have a2: "CacheGuardGetCommand_original [''k'' \<mapsto> ?e] 3 ''k'' (Some 5000)
      = (Reply_Null, [''k'' \<mapsto> ?e](lockName ''k'' \<mapsto>
           \<lparr>stored = StringVal ''1'', expire = 5000\<rparr>))"
    by (rule mp [OF at_bound [THEN conjunct2, THEN conjunct2, THEN conjunct2] b2])
  have c: "expire ?f = REDISMODULE_NO_EXPIRE \<or> 5000 < expire ?f"
    by simp
  have a3: "CacheGuardGetCommand_enhanced module_config_init [''k'' \<mapsto> ?f] 3 ''k'' (Some 5000)
        = (Reply_String ''v'', [''k'' \<mapsto> ?f])
      \<and> CacheGuardGetCommand_original [''k'' \<mapsto> ?f] 3 ''k'' (Some 5000)
        = (Reply_String ''v'', [''k'' \<mapsto> ?f])"
    by (rule mp [OF above [THEN conjunct1] c])
  from a1 a2 a3 show ?thesis
    by (simp add: lockName_no_nul REGEN_LOCK_SUFFIX_def)
qed

section \<open>Setting an entry\<close>

text \<open>
  With arguments that pass validation the set writes the value with its expiry and
  removes the record under the key's lock key; the enhanced module derives no lock key
  for a key above 500 bytes and then removes nothing.
\<close>

lemma Set_enhanced_valid:
  assumes "key \<noteq> []" "length key \<le> MAX_KEY_LENGTH" "length v \<le> 10 * 1024 * 1024"
    and "MIN_EXPIRE_MS \<le> t" "t \<le> MAX_EXPIRE_MS"
  shows "CacheGuardSetCommand_enhanced db 4 key v (Some t) =
     (Reply_SimpleString ''OK'',
      if length key \<le> 500
      then (db(key \<mapsto> \<lparr>stored = StringVal v, expire = t\<rparr>))(key @ REGEN_LOCK_SUFFIX := None)
      else db(key \<mapsto> \<lparr>stored = StringVal v, expire = t\<rparr>))"
  using assms
  by (auto simp: CacheGuardSetCommand_enhanced_def CreateLockKey_def api_defs Let_def
      const_defs fun_upd_idem split: option.splits rvalue.splits)

lemma Set_original_valid:
  assumes "0 < t"
  shows "CacheGuardSetCommand_original db 4 key v (Some t) =
     (Reply_SimpleString ''OK'',
      (db(key \<mapsto> \<lparr>stored = StringVal v, expire = t\<rparr>))(lockName key := None))"
  using assms
  by (auto simp: CacheGuardSetCommand_original_def api_defs Let_def const_defs)

text \<open>
  C8. Whenever the set replies OK, the keyspace it leaves holds no record under the
  regeneration lock key of that key, for every keyspace before it and every argument.
  The lock key is the one the module derives for the key: \<open>CreateLockKey\<close> in the
  enhanced module (defined for keys of 1 to 500 bytes, the keys it can lock) and
  \<open>lockName\<close> in the original.
\<close>

theorem set_ok_releases_lock:
  "(fst (CacheGuardSetCommand_enhanced db argc key v a) = Reply_SimpleString ''OK'' \<longrightarrow>
      (\<forall>lk. CreateLockKey key = Some lk \<longrightarrow>
         snd (CacheGuardSetCommand_enhanced db argc key v a) lk = None))
   \<and> (fst (CacheGuardSetCommand_original db argc key v a) = Reply_SimpleString ''OK'' \<longrightarrow>
      snd (CacheGuardSetCommand_original db argc key v a) (lockName key) = None)"
proof -
  have en: "fst (CacheGuardSetCommand_enhanced db argc key v a) = Reply_SimpleString ''OK'' \<longrightarrow>
      (\<forall>lk. CreateLockKey key = Some lk \<longrightarrow>
         snd (CacheGuardSetCommand_enhanced db argc key v a) lk = None)"
    by (auto simp: CacheGuardSetCommand_enhanced_def api_defs Let_def
        split: option.splits if_splits rvalue.splits)
  have og: "fst (CacheGuardSetCommand_original db argc key v a) = Reply_SimpleString ''OK'' \<longrightarrow>
      snd (CacheGuardSetCommand_original db argc key v a) (lockName key) = None"
    by (auto simp: CacheGuardSetCommand_original_def api_defs Let_def
        split: option.splits if_splits)
  from en og show ?thesis by simp
qed


theorem set_ok_releases_lock_witness:
  "fst (CacheGuardSetCommand_enhanced
      [''k:regen_lock'' \<mapsto> \<lparr>stored = StringVal ''1'', expire = 4000\<rparr>]
      4 ''k'' ''new'' (Some 60000)) = Reply_SimpleString ''OK''
   \<and> CreateLockKey ''k'' = Some ''k:regen_lock''
   \<and> snd (CacheGuardSetCommand_enhanced
      [''k:regen_lock'' \<mapsto> \<lparr>stored = StringVal ''1'', expire = 4000\<rparr>]
      4 ''k'' ''new'' (Some 60000)) ''k:regen_lock'' = None
   \<and> fst (CacheGuardSetCommand_original
      [''k:regen_lock'' \<mapsto> \<lparr>stored = StringVal ''1'', expire = 4000\<rparr>]
      4 ''k'' ''new'' (Some 60000)) = Reply_SimpleString ''OK''
   \<and> snd (CacheGuardSetCommand_original
      [''k:regen_lock'' \<mapsto> \<lparr>stored = StringVal ''1'', expire = 4000\<rparr>]
      4 ''k'' ''new'' (Some 60000)) ''k:regen_lock'' = None"
proof -
  let ?db = "[''k:regen_lock'' \<mapsto> \<lparr>stored = StringVal ''1'', expire = 4000\<rparr>]"
  have ok1: "fst (CacheGuardSetCommand_enhanced ?db 4 ''k'' ''new'' (Some 60000))
      = Reply_SimpleString ''OK''"
    by (simp add: Set_enhanced_valid const_defs)
  have ok2: "fst (CacheGuardSetCommand_original ?db 4 ''k'' ''new'' (Some 60000))
      = Reply_SimpleString ''OK''"
    by (simp add: Set_original_valid)
  have ck: "CreateLockKey ''k'' = Some ''k:regen_lock''"
    by (simp add: CreateLockKey_Some REGEN_LOCK_SUFFIX_def)
  have ln: "lockName ''k'' = ''k:regen_lock''"
    by (simp add: lockName_no_nul REGEN_LOCK_SUFFIX_def)
  note th = set_ok_releases_lock [of ?db 4 "''k''" "''new''" "Some 60000"]
  have "\<forall>lk. CreateLockKey ''k'' = Some lk \<longrightarrow>
      snd (CacheGuardSetCommand_enhanced ?db 4 ''k'' ''new'' (Some 60000)) lk = None"
    by (rule mp [OF th [THEN conjunct1] ok1])
  then have "CreateLockKey ''k'' = Some ''k:regen_lock'' \<longrightarrow>
      snd (CacheGuardSetCommand_enhanced ?db 4 ''k'' ''new'' (Some 60000)) ''k:regen_lock'' = None"
    by (rule spec)
  from this ck have a:
    "snd (CacheGuardSetCommand_enhanced ?db 4 ''k'' ''new'' (Some 60000)) ''k:regen_lock'' = None"
    by (rule mp)
  have "snd (CacheGuardSetCommand_original ?db 4 ''k'' ''new'' (Some 60000)) (lockName ''k'') = None"
    by (rule mp [OF th [THEN conjunct2] ok2])
  with ln have b:
    "snd (CacheGuardSetCommand_original ?db 4 ''k'' ''new'' (Some 60000)) ''k:regen_lock'' = None"
    by simp
  from ok1 ck a ok2 b show ?thesis by simp
qed

text \<open>
  C9. For a key, a value and an expiry that pass validation, the set replies OK and
  stores the value with that expiry. A get with a valid grace period \<open>g\<close>, run on the
  keyspace the set left once the entry's remaining time has come down to any \<open>r\<close>
  above \<open>g\<close> (\<open>r = t\<close> is the get that follows at once), replies with exactly the
  bytes that were set and changes nothing. Both modules are covered; the bounds are the
  enhanced module's, which lie inside the original's.
\<close>

theorem set_then_get_fresh:
  fixes db :: keyspace and key :: RedisModuleString and v :: string and t :: int
  defines "db1 \<equiv> snd (CacheGuardSetCommand_enhanced db 4 key v (Some t))"
    and "db2 \<equiv> snd (CacheGuardSetCommand_original db 4 key v (Some t))"
  assumes "key \<noteq> []" "length key \<le> MAX_KEY_LENGTH" "length v \<le> 10 * 1024 * 1024"
    and "MIN_EXPIRE_MS \<le> t" "t \<le> MAX_EXPIRE_MS"
    and "MIN_GRACE_PERIOD_MS \<le> g" "g \<le> MAX_GRACE_PERIOD_MS"
    and "g < r"
  shows "fst (CacheGuardSetCommand_enhanced db 4 key v (Some t)) = Reply_SimpleString ''OK''
     \<and> db1 key = Some \<lparr>stored = StringVal v, expire = t\<rparr>
     \<and> CacheGuardGetCommand_enhanced cfg
          (db1(key \<mapsto> \<lparr>stored = StringVal v, expire = r\<rparr>)) 3 key (Some g)
        = (Reply_String v, db1(key \<mapsto> \<lparr>stored = StringVal v, expire = r\<rparr>))
     \<and> fst (CacheGuardSetCommand_original db 4 key v (Some t)) = Reply_SimpleString ''OK''
     \<and> db2 key = Some \<lparr>stored = StringVal v, expire = t\<rparr>
     \<and> CacheGuardGetCommand_original
          (db2(key \<mapsto> \<lparr>stored = StringVal v, expire = r\<rparr>)) 3 key (Some g)
        = (Reply_String v, db2(key \<mapsto> \<lparr>stored = StringVal v, expire = r\<rparr>))"
proof -
  from assms(6) have t0: "0 < t" by (simp add: MIN_EXPIRE_MS_def)
  from assms(8) have g0: "0 \<le> g" by (simp add: MIN_GRACE_PERIOD_MS_def)
  note se = Set_enhanced_valid [OF assms(3-7), of db]
  note so = Set_original_valid [OF t0, of db key v]
  have e1: "fst (CacheGuardSetCommand_enhanced db 4 key v (Some t)) = Reply_SimpleString ''OK''"
    by (simp add: se)
  have e2: "db1 key = Some \<lparr>stored = StringVal v, expire = t\<rparr>"
    by (simp add: db1_def se REGEN_LOCK_SUFFIX_def)
  let ?l1 = "db1(key \<mapsto> \<lparr>stored = StringVal v, expire = r\<rparr>)"
  have e3: "CacheGuardGetCommand_enhanced cfg ?l1 3 key (Some g) = (Reply_String v, ?l1)"
    using assms(10)
    by (simp add: Get_enhanced_string_entry
        [where db = ?l1 and key = key and e = "\<lparr>stored = StringVal v, expire = r\<rparr>",
         OF assms(8,9,3,4)])
  have o1: "fst (CacheGuardSetCommand_original db 4 key v (Some t)) = Reply_SimpleString ''OK''"
    by (simp add: so)
  have o2: "db2 key = Some \<lparr>stored = StringVal v, expire = t\<rparr>"
    using lockName_neq_key [of key] by (simp add: db2_def so)
  let ?l2 = "db2(key \<mapsto> \<lparr>stored = StringVal v, expire = r\<rparr>)"
  have o3: "CacheGuardGetCommand_original ?l2 3 key (Some g) = (Reply_String v, ?l2)"
    using assms(10)
    by (simp add: Get_original_string_entry
        [where db = ?l2 and key = key and e = "\<lparr>stored = StringVal v, expire = r\<rparr>",
         OF g0])
  from e1 e2 e3 o1 o2 o3 show ?thesis by simp
qed


theorem set_then_get_fresh_witness:
  "fst (CacheGuardSetCommand_enhanced Map.empty 4 ''k'' ''payload'' (Some 60000))
     = Reply_SimpleString ''OK''
   \<and> CacheGuardGetCommand_enhanced module_config_init
        (snd (CacheGuardSetCommand_enhanced Map.empty 4 ''k'' ''payload'' (Some 60000)))
        3 ''k'' (Some 100)
     = (Reply_String ''payload'', [''k'' \<mapsto> \<lparr>stored = StringVal ''payload'', expire = 60000\<rparr>])
   \<and> CacheGuardGetCommand_original
        (snd (CacheGuardSetCommand_original Map.empty 4 ''k'' ''payload'' (Some 60000)))
        3 ''k'' (Some 100)
     = (Reply_String ''payload'', [''k'' \<mapsto> \<lparr>stored = StringVal ''payload'', expire = 60000\<rparr>])"
proof -
  have h1: "''k'' \<noteq> []" "length ''k'' \<le> MAX_KEY_LENGTH"
    "length ''payload'' \<le> 10 * 1024 * 1024"
    by (simp_all add: const_defs)
  have h2: "MIN_EXPIRE_MS \<le> 60000" "60000 \<le> MAX_EXPIRE_MS"
    by (simp_all add: const_defs)
  have h3: "MIN_GRACE_PERIOD_MS \<le> 100" "100 \<le> MAX_GRACE_PERIOD_MS"
    by (simp_all add: const_defs)
  have h4: "(100 :: int) < 60000" by simp
  have s1: "snd (CacheGuardSetCommand_enhanced Map.empty 4 ''k'' ''payload'' (Some 60000))
      = [''k'' \<mapsto> \<lparr>stored = StringVal ''payload'', expire = 60000\<rparr>]"
    by (simp add: Set_enhanced_valid const_defs)
  have s2: "snd (CacheGuardSetCommand_original Map.empty 4 ''k'' ''payload'' (Some 60000))
      = [''k'' \<mapsto> \<lparr>stored = StringVal ''payload'', expire = 60000\<rparr>]"
    by (simp add: Set_original_valid lockName_no_nul REGEN_LOCK_SUFFIX_def)
  note th = set_then_get_fresh
    [where key = "''k''" and v = "''payload''" and t = 60000 and g = 100 and r = 60000
       and db = Map.empty and cfg = module_config_init, OF h1 h2 h3 h4]
  from th show ?thesis by (simp add: s1 s2)
qed

section \<open>Several callers in the grace period\<close>

text \<open>
  When the lock is free and can be taken, the first caller served is told to regenerate
  and takes the lock; every later caller gets the stored value. The scenario after the
  two lemmas is an entry set with 1000 ms that has 50 ms left when two callers ask with a
  grace period of 100 ms.
\<close>

lemma serve_gets_original_fixed:
  "CacheGuardGetCommand_original db 3 key (Some g) = (r, db) \<Longrightarrow>
   serve_gets_original db key g n = (replicate n r, db)"
  by (induction n) simp_all

lemma serve_gets_original_in_grace:
  assumes "0 \<le> g" and "db key = Some e" "stored e = StringVal v"
    and "expire e \<noteq> REDISMODULE_NO_EXPIRE" "expire e \<le> g"
    and "db (lockName key) = None"
  shows "serve_gets_original db key g (Suc n) =
     (Reply_Null # replicate n (Reply_String v),
      db(lockName key \<mapsto> \<lparr>stored = StringVal ''1'', expire = g\<rparr>))"
proof -
  let ?db1 = "db(lockName key \<mapsto> \<lparr>stored = StringVal ''1'', expire = g\<rparr>)"
  have first: "CacheGuardGetCommand_original db 3 key (Some g) = (Reply_Null, ?db1)"
    using assms by (simp add: Get_original_string_entry)
  have k1: "?db1 key = Some e"
    using assms(2) lockName_neq_key [of key] by simp
  have later: "CacheGuardGetCommand_original ?db1 3 key (Some g) = (Reply_String v, ?db1)"
    using assms(4,5)
    by (simp add: Get_original_string_entry [where db = ?db1 and key = key, OF assms(1) k1 assms(3)])
  show ?thesis
    by (simp add: first serve_gets_original_fixed [OF later])
qed

lemma serve_gets_enhanced_in_grace:
  assumes "MIN_GRACE_PERIOD_MS \<le> g" "g \<le> MAX_GRACE_PERIOD_MS"
    and "key \<noteq> []" "length key \<le> 500"
    and "db key = Some e" "stored e = StringVal v"
    and "expire e \<noteq> REDISMODULE_NO_EXPIRE" "expire e \<le> g"
    and "g \<le> max_lock_duration cfg" "db (key @ REGEN_LOCK_SUFFIX) = None"
  shows "serve_gets_enhanced cfg db key g (Suc n) =
     (Reply_Null # replicate n (Reply_String v),
      db(key @ REGEN_LOCK_SUFFIX \<mapsto> \<lparr>stored = StringVal ''1'', expire = g\<rparr>))"
proof -
  let ?db1 = "db(key @ REGEN_LOCK_SUFFIX \<mapsto> \<lparr>stored = StringVal ''1'', expire = g\<rparr>)"
  from assms(4) have len: "length key \<le> MAX_KEY_LENGTH" by (simp add: MAX_KEY_LENGTH_def)
  have first: "CacheGuardGetCommand_enhanced cfg db 3 key (Some g) = (Reply_Null, ?db1)"
    using assms(4,7-10)
    by (simp add: Get_enhanced_string_entry
        [where db = db and key = key, OF assms(1,2,3) len assms(5,6)])
  have k1: "?db1 key = Some e"
    using assms(5) lock_suffix_neq_key [of key] by simp
  have later: "CacheGuardGetCommand_enhanced cfg ?db1 3 key (Some g) = (Reply_String v, ?db1)"
    using assms(7,8)
    by (simp add: Get_enhanced_string_entry
        [where db = ?db1 and key = key, OF assms(1,2,3) len k1 assms(6)])
  show ?thesis
    by (simp add: first serve_gets_enhanced_fixed [OF later])
qed

lemma scenario_two_callers_in_grace:
  "serve_gets_enhanced module_config_init
     [''u1'' \<mapsto> \<lparr>stored = StringVal ''v1'', expire = 50\<rparr>] ''u1'' 100 2
   = ([Reply_Null, Reply_String ''v1''],
      [''u1'' \<mapsto> \<lparr>stored = StringVal ''v1'', expire = 50\<rparr>,
       ''u1:regen_lock'' \<mapsto> \<lparr>stored = StringVal ''1'', expire = 100\<rparr>])"
proof -
  have "serve_gets_enhanced module_config_init
      [''u1'' \<mapsto> \<lparr>stored = StringVal ''v1'', expire = 50\<rparr>] ''u1'' 100 (Suc 1)
    = (Reply_Null # replicate 1 (Reply_String ''v1''),
       [''u1'' \<mapsto> \<lparr>stored = StringVal ''v1'', expire = 50\<rparr>]
         (''u1'' @ REGEN_LOCK_SUFFIX \<mapsto> \<lparr>stored = StringVal ''1'', expire = 100\<rparr>))"
    by (rule serve_gets_enhanced_in_grace
          [where e = "\<lparr>stored = StringVal ''v1'', expire = 50\<rparr>"])
      (simp_all add: const_defs)
  then show ?thesis
    by (simp add: numeral_2_eq_2 REGEN_LOCK_SUFFIX_def)
qed

text \<open>
  C2 says that of the callers that find an entry in its grace period exactly one is
  told to regenerate and the others get the stored value. This is the input where the
  enhanced module departs from it. The entry \<open>k\<close> has
  20000 ms left, three callers ask with a grace period of 30001 ms (inside the accepted
  100 ms to 24 hours, above the default \<^verbatim>\<open>max_lock_duration\<close> of 30000 ms) and no lock
  exists. In the enhanced module all three get the stored value and none is told to
  regenerate; in the original module the first is told to regenerate and the other two
  get the stored value.
\<close>

theorem long_grace_no_caller_regenerates:
  "serve_gets_enhanced module_config_init
     [''k'' \<mapsto> \<lparr>stored = StringVal ''old'', expire = 20000\<rparr>] ''k'' 30001 3
   = ([Reply_String ''old'', Reply_String ''old'', Reply_String ''old''],
      [''k'' \<mapsto> \<lparr>stored = StringVal ''old'', expire = 20000\<rparr>])
   \<and> serve_gets_original
     [''k'' \<mapsto> \<lparr>stored = StringVal ''old'', expire = 20000\<rparr>] ''k'' 30001 3
   = ([Reply_Null, Reply_String ''old'', Reply_String ''old''],
      [''k'' \<mapsto> \<lparr>stored = StringVal ''old'', expire = 20000\<rparr>,
       ''k:regen_lock'' \<mapsto> \<lparr>stored = StringVal ''1'', expire = 30001\<rparr>])"
proof -
  let ?db = "[''k'' \<mapsto> \<lparr>stored = StringVal ''old'', expire = 20000\<rparr>]"
  have one: "CacheGuardGetCommand_enhanced module_config_init ?db 3 ''k'' (Some 30001)
      = (Reply_String ''old'', ?db)"
    by (simp add: CacheGuardGetCommand_enhanced_def TryAcquireLock_enhanced_eq api_defs const_defs)
  have a: "serve_gets_enhanced module_config_init ?db ''k'' 30001 3
      = ([Reply_String ''old'', Reply_String ''old'', Reply_String ''old''], ?db)"
    using serve_gets_enhanced_fixed [OF one, of 3] by (simp add: numeral_3_eq_3)
  have b: "serve_gets_original ?db ''k'' 30001 (Suc 2)
      = (Reply_Null # replicate 2 (Reply_String ''old''),
         ?db(lockName ''k'' \<mapsto> \<lparr>stored = StringVal ''1'', expire = 30001\<rparr>))"
    by (rule serve_gets_original_in_grace [where e = "\<lparr>stored = StringVal ''old'', expire = 20000\<rparr>"])
      (simp_all add: lockName_no_nul const_defs)
  from a b show ?thesis
    by (simp add: numeral_3_eq_3 numeral_2_eq_2 lockName_no_nul REGEN_LOCK_SUFFIX_def)
qed

section \<open>Lock names of keys with a NUL byte\<close>

text \<open>
  C5 says that the lock key is the key followed by the fixed suffix and that distinct
  keys, whatever their bytes, have distinct lock keys. This is the input where the
  original module departs from it. The keys \<open>a\<close> NUL
  \<open>b\<close> and \<open>a\<close> NUL \<open>c\<close> differ, and the original module derives the lock name
  \<open>a\<close> for both (\<^verbatim>\<open>strlen\<close> stops at the NUL byte): once the first key's lock is
  taken, the second key's acquisition finds it held. The enhanced module passes the
  length it computed and derives key plus suffix for each.
\<close>

theorem lockName_collision:
  "lockName [CHR ''a'', CHR 0x00, CHR ''b''] = ''a''
   \<and> lockName [CHR ''a'', CHR 0x00, CHR ''c''] = ''a''
   \<and> TryAcquireLock_original Map.empty [CHR ''a'', CHR 0x00, CHR ''b''] 5000
       = (1, [''a'' \<mapsto> \<lparr>stored = StringVal ''1'', expire = 5000\<rparr>])
   \<and> TryAcquireLock_original [''a'' \<mapsto> \<lparr>stored = StringVal ''1'', expire = 5000\<rparr>]
         [CHR ''a'', CHR 0x00, CHR ''c''] 5000
       = (0, [''a'' \<mapsto> \<lparr>stored = StringVal ''1'', expire = 5000\<rparr>])
   \<and> CreateLockKey [CHR ''a'', CHR 0x00, CHR ''b'']
       = Some ([CHR ''a'', CHR 0x00, CHR ''b''] @ '':regen_lock'')
   \<and> CreateLockKey [CHR ''a'', CHR 0x00, CHR ''c'']
       = Some ([CHR ''a'', CHR 0x00, CHR ''c''] @ '':regen_lock'')"
proof -
  have l1: "lockName [CHR ''a'', CHR 0x00, CHR ''b''] = ''a''"
    by (simp add: lockName_takeWhile)
  have l2: "lockName [CHR ''a'', CHR 0x00, CHR ''c''] = ''a''"
    by (simp add: lockName_takeWhile)
  show ?thesis
    by (simp add: l1 l2 TryAcquireLock_original_free TryAcquireLock_original_held
        CreateLockKey_Some REGEN_LOCK_SUFFIX_def)
qed

end
